theory Spec2Isabelle
  imports Main "HOL-Library.Sublist"
begin

section \<open>Barangay Case Analyzer: the report pipeline of script.js\<close>

text \<open>
  A shallow embedding of the functions of \<^verbatim>\<open>src/script.js\<close> that turn the intake form
  into the report data: \<^verbatim>\<open>validateForm\<close>, \<^verbatim>\<open>classifyCase\<close>, \<^verbatim>\<open>LEGAL_DATA\<close>,
  \<^verbatim>\<open>generateMediationStrategy\<close>, \<^verbatim>\<open>generateQuestions\<close>, \<^verbatim>\<open>gatherData\<close> and
  \<^verbatim>\<open>generateReport\<close>. The document tree is read through a record of the form's
  values and written through a record of what the page shows.
\<close>

subsection \<open>Strings\<close>

text \<open>
  A JavaScript string is a sequence of UTF-16 code units. Form input is modelled as a
  \<open>string\<close> whose characters are the code units U+0000 to U+00FF, one \<open>char\<close> each; on
  these, \<^verbatim>\<open>length\<close>, \<^verbatim>\<open>toLowerCase\<close> and \<^verbatim>\<open>trim\<close> below are the ones of
  ECMAScript. Input with code units above U+00FF is outside the model.

  The literal texts of the tables hold ten characters that are not ASCII. The no-break
  space is the code unit \<open>0xA0\<close>. The nine others are above U+00FF and do not fit one
  \<open>char\<close>; each is a named constant holding its UTF-8 bytes. The program only copies
  these texts into the report: it never measures, trims, lower-cases or searches them.
\<close>

definition NBSP :: string where \<comment> \<open>U+00A0 no-break space\<close>
  "NBSP = [CHR 0xA0]"

definition NBHYPHEN :: string where \<comment> \<open>U+2011 non-breaking hyphen\<close>
  "NBHYPHEN = [CHR 0xE2, CHR 0x80, CHR 0x91]"

definition ENDASH :: string where \<comment> \<open>U+2013 en dash\<close>
  "ENDASH = [CHR 0xE2, CHR 0x80, CHR 0x93]"

definition RSQUO :: string where \<comment> \<open>U+2019 right single quotation mark\<close>
  "RSQUO = [CHR 0xE2, CHR 0x80, CHR 0x99]"

definition LDQUO :: string where \<comment> \<open>U+201C left double quotation mark\<close>
  "LDQUO = [CHR 0xE2, CHR 0x80, CHR 0x9C]"

definition RDQUO :: string where \<comment> \<open>U+201D right double quotation mark\<close>
  "RDQUO = [CHR 0xE2, CHR 0x80, CHR 0x9D]"

definition DAGGER :: string where \<comment> \<open>U+2020 dagger\<close>
  "DAGGER = [CHR 0xE2, CHR 0x80, CHR 0xA0]"

definition PESO :: string where \<comment> \<open>U+20B1 peso sign\<close>
  "PESO = [CHR 0xE2, CHR 0x82, CHR 0xB1]"

definition LBRACKET :: string where \<comment> \<open>U+3010 left black lenticular bracket\<close>
  "LBRACKET = [CHR 0xE3, CHR 0x80, CHR 0x90]"

definition RBRACKET :: string where \<comment> \<open>U+3011 right black lenticular bracket\<close>
  "RBRACKET = [CHR 0xE3, CHR 0x80, CHR 0x91]"

text \<open>
  \<^verbatim>\<open>String.prototype.toLowerCase\<close> on U+0000 to U+00FF: the 26 ASCII capitals and the 30
  capitals of the Latin-1 supplement (U+00C0 to U+00DE without the multiplication sign
  U+00D7) move up by \<open>0x20\<close>; every other code unit stays.
\<close>

definition upperCaseUnits :: string where
  "upperCaseUnits = ''ABCDEFGHIJKLMNOPQRSTUVWXYZ'' @
     [CHR 0xC0, CHR 0xC1, CHR 0xC2, CHR 0xC3, CHR 0xC4, CHR 0xC5, CHR 0xC6, CHR 0xC7,
      CHR 0xC8, CHR 0xC9, CHR 0xCA, CHR 0xCB, CHR 0xCC, CHR 0xCD, CHR 0xCE, CHR 0xCF,
      CHR 0xD0, CHR 0xD1, CHR 0xD2, CHR 0xD3, CHR 0xD4, CHR 0xD5, CHR 0xD6,
      CHR 0xD8, CHR 0xD9, CHR 0xDA, CHR 0xDB, CHR 0xDC, CHR 0xDD, CHR 0xDE]"

definition lowerCaseUnits :: string where
  "lowerCaseUnits = ''abcdefghijklmnopqrstuvwxyz'' @
     [CHR 0xE0, CHR 0xE1, CHR 0xE2, CHR 0xE3, CHR 0xE4, CHR 0xE5, CHR 0xE6, CHR 0xE7,
      CHR 0xE8, CHR 0xE9, CHR 0xEA, CHR 0xEB, CHR 0xEC, CHR 0xED, CHR 0xEE, CHR 0xEF,
      CHR 0xF0, CHR 0xF1, CHR 0xF2, CHR 0xF3, CHR 0xF4, CHR 0xF5, CHR 0xF6,
      CHR 0xF8, CHR 0xF9, CHR 0xFA, CHR 0xFB, CHR 0xFC, CHR 0xFD, CHR 0xFE]"

definition toLowerCase_unit :: "char \<Rightarrow> char" where
  "toLowerCase_unit c =
     (case map_of (zip upperCaseUnits lowerCaseUnits) c of Some l \<Rightarrow> l | None \<Rightarrow> c)"

definition toLowerCase :: "string \<Rightarrow> string" where
  "toLowerCase s = map toLowerCase_unit s"

text \<open>
  \<^verbatim>\<open>String.prototype.trim\<close> removes white space and line terminators from both ends. Up
  to U+00FF these are TAB, LF, VT, FF, CR, SP and the no-break space.
\<close>

definition isWhiteSpace :: "char \<Rightarrow> bool" where
  "isWhiteSpace c =
     (c \<in> set [CHR 0x09, CHR 0x0A, CHR 0x0B, CHR 0x0C, CHR 0x0D, CHR 0x20, CHR 0xA0])"

definition trim :: "string \<Rightarrow> string" where
  "trim s = rev (dropWhile isWhiteSpace (rev (dropWhile isWhiteSpace s)))"

subsection \<open>Regular expressions of literal alternatives\<close>

text \<open>
  Every pattern of \<^verbatim>\<open>classifyCase\<close> is an alternation of literal words with no flag and no
  anchor, such as \<^verbatim>\<open>/threat|kill|hurt|intimidat/\<close>. \<^verbatim>\<open>RegExp.prototype.test\<close> tries the
  alternatives, in order, at the first position, then at the next one, up to the end of
  the text.
\<close>

fun startsWith :: "string \<Rightarrow> string \<Rightarrow> bool" where
  "startsWith [] s = True"
| "startsWith (p # ps) [] = False"
| "startsWith (p # ps) (c # cs) = (p = c \<and> startsWith ps cs)"

definition matchHere :: "string list \<Rightarrow> string \<Rightarrow> bool" where
  "matchHere alts s = list_ex (\<lambda>p. startsWith p s) alts"

fun RegExp_test :: "string list \<Rightarrow> string \<Rightarrow> bool" where
  "RegExp_test alts [] = matchHere alts []"
| "RegExp_test alts (c # cs) = (matchHere alts (c # cs) \<or> RegExp_test alts cs)"

subsection \<open>classifyCase\<close>

text \<open>
  The four patterns, in the order of the source. The function returns the key of the
  classification as the source does, a string.
\<close>

definition theftPattern :: "string list" where
  "theftPattern = [''steal'', ''theft'', ''stole'', ''rob'', ''robbed'', ''take'', ''took'',
     ''taken'', ''takin'', ''missing'']"

definition threatPattern :: "string list" where
  "threatPattern = [''threat'', ''kill'', ''hurt'', ''intimidat'']"

definition defamationPattern :: "string list" where
  "defamationPattern = [''defam'', ''slander'', ''insult'', ''libel'', ''oral'']"

definition injuryPattern :: "string list" where
  "injuryPattern = [''injur'', ''hit'', ''punch'', ''physical'', ''attack'']"

definition classifyCase :: "string \<Rightarrow> string" where
  "classifyCase summary =
     (let text = toLowerCase summary in
      if RegExp_test theftPattern text then ''theft''
      else if RegExp_test threatPattern text then ''threat''
      else if RegExp_test defamationPattern text then ''defamation''
      else if RegExp_test injuryPattern text then ''injury''
      else ''general'')"

subsection \<open>The data of a report\<close>

text \<open>
  The objects of the source as records. A field keeps its name in the source, with the
  object's name in front where two objects share a field name or the name is reserved:
  \<^verbatim>\<open>title\<close>, \<^verbatim>\<open>basis\<close>, \<^verbatim>\<open>text\<close>, \<^verbatim>\<open>penalty\<close> of a violation or counter-charge are
  \<open>prov_title\<close>, \<open>prov_basis\<close>, \<open>prov_text\<close>, \<open>prov_penalty\<close>; \<^verbatim>\<open>title\<close>, \<^verbatim>\<open>summary\<close> of a
  court decision are \<open>cite_title\<close>, \<open>cite_summary\<close>.
\<close>

record Provision =
  prov_title :: string
  prov_basis :: string
  prov_text :: string
  prov_penalty :: string

record CaseCitation =
  cite_title :: string
  cite_summary :: string

record LegalRecord =
  nature :: string
  description :: string
  violations :: "Provision list"
  jurisprudence :: "CaseCitation list"
  counters :: "Provision list"

record MediationStrategy =
  objectives :: "string list"
  issues :: "string list"
  notForMediation :: "string list"
  outcomes :: "string list"

record QuestionSet =
  openEnded :: "string list"
  clarifying :: "string list"
  reflective :: "string list"
  exploratory :: "string list"
  conscience :: "string list"

record Questions =
  complainantQuestions :: QuestionSet  \<comment> \<open>\<^verbatim>\<open>questions.complainant\<close>\<close>
  respondentQuestions :: QuestionSet  \<comment> \<open>\<^verbatim>\<open>questions.respondent\<close>\<close>

record PartyInfo =
  name :: string
  phone :: string
  email :: string
  address :: string

record IncidentInfo =
  summary :: string
  location :: string
  dateTime :: string

text \<open>The object \<^verbatim>\<open>gatherData\<close> returns.\<close>

record FormData =
  caseId :: string
  dateReceived :: string
  complainant :: PartyInfo
  respondents :: "PartyInfo list"
  incident :: IncidentInfo
  caseTitle :: string

text \<open>
  \<^verbatim>\<open>reportData\<close> spreads the form data and adds three fields. \<open>analysis\<close> is the result
  of a property read, \<^verbatim>\<open>LEGAL_DATA[classification]\<close>: \<open>None\<close> stands for \<^verbatim>\<open>undefined\<close>.
\<close>

record CaseReport = FormData +
  analysis :: "LegalRecord option"
  mediation :: MediationStrategy
  questions :: Questions

subsection \<open>The table \<^verbatim>\<open>LEGAL_DATA\<close>\<close>

definition LEGAL_DATA_theft :: LegalRecord where
  "LEGAL_DATA_theft =
    \<lparr>nature = ''Theft / Qualified Theft'',
     description =
        ''Theft involves taking personal property belonging to '' @
        ''another without their consent and with intent to gain. '' @
        ''Qualified theft occurs when the offender and owner have a '' @
        ''relationship of trust (e.g., employee and employer).'',
     violations =
       [\<lparr>prov_title = ''Theft'',
         prov_basis = ''Revised Penal Code Art. 308'',
         prov_text =
            ''Article'' @ NBSP @
            ''308 defines theft as taking personal property belonging to '' @
            ''another without violence or intimidation, including the '' @
            ''misappropriation of found property and the concealment of '' @
            ''lost goods. The offender must intend to gain from the '' @ ''property'' @
            LBRACKET @ ''302115606301760'' @ DAGGER @ ''L4077-L4134'' @ RBRACKET @ ''.'',
         prov_penalty =
            ''Article'' @ NBSP @
            ''309 provides penalties depending on the value of the '' @
            ''property: if the value does not exceed '' @ PESO @ ''5,000, arresto'' @
            NBSP @ ''mayor or fine applies; between '' @ PESO @ ''5,000 and '' @ PESO @
            ''12,000, arresto'' @ NBSP @ ''mayor to prision'' @ NBSP @
            ''correccional; '' @ PESO @ ''12,000 to '' @ PESO @ ''50,000, prision'' @
            NBSP @ ''correccional; above '' @ PESO @ ''50,000, prision'' @ NBSP @
            ''mayor'' @ LBRACKET @ ''302115606301760'' @ DAGGER @ ''L4077-L4134'' @
            RBRACKET @ ''.''\<rparr>,
        \<lparr>prov_title = ''City ordinance on employment of seniors and PWDs'',
         prov_basis =
            ''San'' @ NBSP @ ''Pedro City Ordinance'' @ NBSP @ ''No.'' @ NBSP @
            ''2024'' @ NBHYPHEN @ ''13'',
         prov_text =
            ''This ordinance mandates private businesses to reserve at '' @
            ''least one job out of ten for senior citizens and persons '' @
            ''with disabilities (PWDs) and requires city offices to '' @
            ''allocate at least 1% of positions to them'' @ LBRACKET @
            ''50922767766975'' @ DAGGER @ ''L25-L57'' @ RBRACKET @ ''.'',
         prov_penalty =
            ''Non'' @ NBHYPHEN @
            ''compliance or misrepresentation results in a fine of '' @ PESO @
            ''5,000 or imprisonment up to one year'' @ LBRACKET @ ''50922767766975'' @
            DAGGER @ ''L25-L57'' @ RBRACKET @ ''.''\<rparr>],
     jurisprudence =
       [\<lparr>cite_title =
            ''Sonia'' @ NBSP @ ''Balagtas'' @ NBSP @ ''v.'' @ NBSP @ ''People (G.R.'' @
            NBSP @ ''No.'' @ NBSP @ ''257483, 30'' @ NBSP @ ''Oct'' @ NBSP @ ''2024)'',
         cite_summary =
            ''The Supreme Court held that, to convict for qualified '' @
            ''theft, the prosecution must prove a relationship of '' @
            ''confidence between the accused and the offended party. In '' @
            ''this case, a payroll manager who padded salaries and '' @
            ''pocketed the difference was convicted of qualified theft'' @ LBRACKET @
            ''267612455535893'' @ DAGGER @ ''L72-L76'' @ RBRACKET @ LBRACKET @
            ''267612455535893'' @ DAGGER @ ''L87-L96'' @ RBRACKET @ ''.''\<rparr>],
     counters =
       [\<lparr>prov_title = ''Malicious mischief'',
         prov_basis = ''Revised Penal Code Art.'' @ NBSP @ ''327'',
         prov_text =
            ''If property was merely damaged without intent to gain, the '' @
            ''proper charge may be malicious mischief rather than theft.'',
         prov_penalty =
            ''Penalties vary depending on the amount of damage (fine or '' @
            ''imprisonment).''\<rparr>,
        \<lparr>prov_title = ''False accusation / Oral defamation'',
         prov_basis = ''Revised Penal Code Art.'' @ NBSP @ ''358'',
         prov_text =
            ''A respondent may file a counter'' @ NBHYPHEN @
            ''charge for oral defamation if the complainant made false or '' @
            ''malicious allegations.'',
         prov_penalty =
            ''Serious oral defamation is punishable by arresto'' @ NBSP @
            ''mayor to prision'' @ NBSP @
            ''correccional; slight defamation carries arresto'' @ NBSP @
            ''menor or a fine'' @ LBRACKET @ ''302115606301760'' @ DAGGER @
            ''L4784-L4793'' @ RBRACKET @ ''.''\<rparr>]\<rparr>"

definition LEGAL_DATA_threat :: LegalRecord where
  "LEGAL_DATA_threat =
    \<lparr>nature = ''Grave Threats / Threatening Behaviour'',
     description =
        ''Threats involve threatening another with the infliction of '' @
        ''any wrong amounting to a crime. Grave threats are punished '' @
        ''based on conditions set and whether the threat is fulfilled.'',
     violations =
       [\<lparr>prov_title = ''Grave threats'',
         prov_basis = ''Revised Penal Code Art.'' @ NBSP @ ''282'',
         prov_text =
            ''Article'' @ NBSP @
            ''282 punishes any person who threatens another with the '' @
            ''infliction of a wrong amounting to a crime. The penalty '' @
            ''varies depending on whether a demand or condition is '' @
            ''imposed and whether the threat is communicated in writing '' @
            ''or through a middleman'' @ LBRACKET @ ''467119748815266'' @ DAGGER @
            ''L161-L178'' @ RBRACKET @ ''.'',
         prov_penalty =
            ''If the threat includes a demand and the offender attains '' @
            ''the objective, the penalty is one degree lower than that '' @
            ''prescribed for the threatened crime. If the objective is '' @
            ''not attained, two degrees lower; if there is no demand or '' @
            ''condition, the penalty is arresto'' @ NBSP @
            ''mayor and a fine up to '' @ PESO @ ''100,000'' @ LBRACKET @
            ''467119748815266'' @ DAGGER @ ''L161-L178'' @ RBRACKET @ ''.''\<rparr>],
     jurisprudence =
       [\<lparr>cite_title =
            ''Paera'' @ NBSP @ ''v.'' @ NBSP @ ''People (G.R.'' @ NBSP @ ''No.'' @
            NBSP @ ''181626)'',
         cite_summary =
            ''The Court upheld the conviction of a barangay chairman who '' @
            ''brandished a bolo and threatened his neighbours by shouting '' @ LDQUO @
            ''I will kill you,'' @ RDQUO @
            '' ruling that his actions constituted grave threats'' @ LBRACKET @
            ''701912971857914'' @ DAGGER @ ''L75-L110'' @ RBRACKET @ ''.''\<rparr>],
     counters =
       [\<lparr>prov_title = ''Provocation and self'' @ NBHYPHEN @ ''defense'',
         prov_basis = ''General defence'',
         prov_text =
            ''Respondents may argue that any threatening statement was '' @
            ''provoked or uttered in self'' @ NBHYPHEN @
            ''defense. The presence of mitigating circumstances can '' @
            ''reduce criminal liability.'',
         prov_penalty =
            ''Penalties may be lowered if mitigating circumstances are '' @
            ''established.''\<rparr>,
        \<lparr>prov_title = ''False accusation / Oral defamation'',
         prov_basis = ''Revised Penal Code Art.'' @ NBSP @ ''358'',
         prov_text =
            ''The respondent may counter'' @ NBHYPHEN @
            ''charge for libel or oral defamation if the complainant '' @
            ''exaggerated or fabricated the alleged threats.'',
         prov_penalty =
            ''Serious oral defamation is punishable by arresto'' @ NBSP @
            ''mayor to prision'' @ NBSP @
            ''correccional; slight defamation by arresto'' @ NBSP @ ''menor or fine'' @
            LBRACKET @ ''302115606301760'' @ DAGGER @ ''L4784-L4793'' @ RBRACKET @ ''.''\<rparr>]\<rparr>"

definition LEGAL_DATA_defamation :: LegalRecord where
  "LEGAL_DATA_defamation =
    \<lparr>nature = ''Oral Defamation (Slander)'',
     description =
        ''Oral defamation or slander consists in speaking ill of '' @
        ''another, imputing a vice, defect or act which tends to '' @
        ''cause dishonour, discredit or contempt.'',
     violations =
       [\<lparr>prov_title = ''Oral defamation'',
         prov_basis = ''Revised Penal Code Art.'' @ NBSP @ ''358'',
         prov_text =
            ''Article'' @ NBSP @
            ''358 punishes oral defamation: serious defamation is '' @
            ''committed when imputations are serious, while slight '' @
            ''defamation covers minor insults. The provision prescribes '' @
            ''the applicable penalties'' @ LBRACKET @ ''302115606301760'' @ DAGGER @
            ''L4784-L4793'' @ RBRACKET @ ''.'',
         prov_penalty =
            ''Serious oral defamation: arresto'' @ NBSP @ ''mayor to prision'' @ NBSP @
            ''correccional; slight defamation: arresto'' @ NBSP @
            ''menor or a fine not exceeding '' @ PESO @ ''200'' @ LBRACKET @
            ''302115606301760'' @ DAGGER @ ''L4784-L4793'' @ RBRACKET @ ''.''\<rparr>],
     jurisprudence =
       [\<lparr>cite_title =
            ''Balite'' @ NBSP @ ''v.'' @ NBSP @ ''People (G.R.'' @ NBSP @ ''L'' @
            NBHYPHEN @ ''21475, 30'' @ NBSP @ ''Sept'' @ NBSP @ ''1966)'',
         cite_summary =
            ''The Supreme Court convicted a union president of grave oral '' @
            ''defamation after he publicly accused another of '' @
            ''misappropriating strike funds; the Court imposed arresto'' @ NBSP @
            ''mayor and prision'' @ NBSP @ ''correccional'' @ LBRACKET @
            ''363720073413201'' @ DAGGER @ ''L79-L87'' @ RBRACKET @ LBRACKET @
            ''363720073413201'' @ DAGGER @ ''L117-L124'' @ RBRACKET @ ''.''\<rparr>],
     counters =
       [\<lparr>prov_title = ''Truth and privileged communications'',
         prov_basis = ''Revised Penal Code Arts.'' @ NBSP @ ''354 & 361'',
         prov_text =
            ''Statements made in the performance of a lawful duty or in '' @
            ''privileged occasions (e.g., judicial proceedings) are not '' @
            ''actionable if true and made in good faith.'',
         prov_penalty = ''No criminal liability if privilege is established.''\<rparr>,
        \<lparr>prov_title = ''Counter'' @ NBHYPHEN @ ''libel against complainant'',
         prov_basis = ''Revised Penal Code Art.'' @ NBSP @ ''358'',
         prov_text =
            ''If the complainant publicly utters false accusations or '' @
            ''defamatory statements during the case, the respondent may '' @
            ''file a libel or defamation case.'',
         prov_penalty =
            ''Serious oral defamation: arresto'' @ NBSP @ ''mayor to prision'' @ NBSP @
            ''correccional; slight defamation: arresto'' @ NBSP @ ''menor or fine'' @
            LBRACKET @ ''302115606301760'' @ DAGGER @ ''L4784-L4793'' @ RBRACKET @ ''.''\<rparr>]\<rparr>"

definition LEGAL_DATA_injury :: LegalRecord where
  "LEGAL_DATA_injury =
    \<lparr>nature = ''Physical Injuries'',
     description =
        ''Physical injuries offences punish acts inflicting bodily '' @
        ''harm. Slight physical injuries cover cases where incapacity '' @
        ''or medical attendance does not exceed nine days.'',
     violations =
       [\<lparr>prov_title = ''Slight physical injuries'',
         prov_basis = ''Revised Penal Code Art.'' @ NBSP @ ''266'',
         prov_text =
            ''Article'' @ NBSP @
            ''266 penalises slight physical injuries and maltreatment. '' @
            ''When the offended party is incapacitated for labour or '' @
            ''needs medical attendance from one to nine days, the penalty '' @
            ''is arresto'' @ NBSP @
            ''menor; if the injuries do not prevent work, a fine not '' @
            ''exceeding '' @ PESO @ ''500 is imposed'' @ LBRACKET @
            ''302115606301760'' @ DAGGER @ ''L3534-L3546'' @ RBRACKET @ ''.'',
         prov_penalty =
            ''Arresto'' @ NBSP @ ''menor (1'' @ ENDASH @ ''30'' @ NBSP @
            ''days) or fine up to '' @ PESO @ ''500'' @ LBRACKET @
            ''302115606301760'' @ DAGGER @ ''L3534-L3546'' @ RBRACKET @ ''.''\<rparr>],
     jurisprudence = [],
     counters =
       [\<lparr>prov_title = ''Self'' @ NBHYPHEN @ ''defense'',
         prov_basis = ''General defence'',
         prov_text =
            ''Respondent may assert that any injuries were inflicted in '' @
            ''lawful self'' @ NBHYPHEN @
            ''defense or defense of a relative, which can justify the act.'',
         prov_penalty =
            ''No criminal liability if all elements of self'' @ NBHYPHEN @
            ''defense are present.''\<rparr>,
        \<lparr>prov_title = ''Mutual affray'',
         prov_basis = ''Revised Penal Code Art.'' @ NBSP @ ''251'',
         prov_text =
            ''If both parties voluntarily engaged in a fight, each may be '' @
            ''liable only for lesser offences depending on the injuries '' @
            ''inflicted.'',
         prov_penalty = ''Penalties vary by resulting injuries and participation.''\<rparr>]\<rparr>"

definition LEGAL_DATA_general :: LegalRecord where
  "LEGAL_DATA_general =
    \<lparr>nature = ''General Complaint / Other Offence'',
     description =
        ''The facts provided do not clearly correspond to a single '' @
        ''criminal classification. Barangay officials should evaluate '' @
        ''all facts and identify applicable laws.'',
     violations =
       [\<lparr>prov_title = ''Barangay justice system'',
         prov_basis = ''Local Government Code & Katarungang Pambarangay Rules'',
         prov_text =
            ''Most disputes between residents of the same barangay must '' @
            ''be referred to the Lupong Tagapamayapa for amicable '' @
            ''settlement before they can be filed in court. Exceptions '' @
            ''include offences punishable by more than one year'' @ RSQUO @
            ''s imprisonment or a fine exceeding '' @ PESO @ ''5,000.'',
         prov_penalty =
            ''If mediation fails, the complaint may proceed to the courts.''\<rparr>,
        \<lparr>prov_title = ''Relevant local ordinances'',
         prov_basis = ''San'' @ NBSP @ ''Pedro City ordinances'',
         prov_text =
            ''San'' @ NBSP @
            ''Pedro City enacts ordinances on matters such as noise '' @
            ''control, curfew, sanitation, environmental protection and '' @
            ''employment. Depending on the complaint, specific ordinances '' @
            ''may apply.'',
         prov_penalty = ''Penalties vary by ordinance.''\<rparr>],
     jurisprudence = [],
     counters = []\<rparr>"

text \<open>
  The object literal, in the order of its keys. A property read finds the first entry
  with the key; the keys here are the own properties of the object.
\<close>

definition LEGAL_DATA_entries :: "(string \<times> LegalRecord) list" where
  "LEGAL_DATA_entries =
     [(''theft'', LEGAL_DATA_theft),
      (''threat'', LEGAL_DATA_threat),
      (''defamation'', LEGAL_DATA_defamation),
      (''injury'', LEGAL_DATA_injury),
      (''general'', LEGAL_DATA_general)]"

definition LEGAL_DATA :: "string \<Rightarrow> LegalRecord option" where
  "LEGAL_DATA key = map_of LEGAL_DATA_entries key"

subsection \<open>The host's dates\<close>

text \<open>
  \<^verbatim>\<open>Date\<close> and its formatting belong to the browser, not to the repository. A host gives
  the time value of a string (\<^verbatim>\<open>new Date(s)\<close>; \<open>None\<close> is the time value NaN of a string it
  cannot parse) and the text of a valid time value for a locale and a time zone, with
  the time of day and without it. \<^verbatim>\<open>d.toLocaleString(locales, { timeZone: z })\<close> is
  \<open>Date_toLocaleString H locales z d\<close>, and likewise for \<^verbatim>\<open>toLocaleDateString\<close>. The type
  \<open>'t\<close> is the host's type of valid time values. ECMA-402 fixes the text of an invalid
  date, whatever the locale and the zone: \<^verbatim>\<open>Invalid Date\<close>.
\<close>

record 't Host =
  parseDate :: "string \<Rightarrow> 't option"
  formatDateTime :: "string \<Rightarrow> string \<Rightarrow> 't \<Rightarrow> string"
  formatDate :: "string \<Rightarrow> string \<Rightarrow> 't \<Rightarrow> string"

definition Date_toLocaleString ::
  "'t Host \<Rightarrow> string \<Rightarrow> string \<Rightarrow> 't option \<Rightarrow> string" where
  "Date_toLocaleString H locales timeZone d =
     (case d of None \<Rightarrow> ''Invalid Date'' | Some t \<Rightarrow> formatDateTime H locales timeZone t)"

definition Date_toLocaleDateString ::
  "'t Host \<Rightarrow> string \<Rightarrow> string \<Rightarrow> 't option \<Rightarrow> string" where
  "Date_toLocaleDateString H locales timeZone d =
     (case d of None \<Rightarrow> ''Invalid Date'' | Some t \<Rightarrow> formatDate H locales timeZone t)"

subsection \<open>generateMediationStrategy\<close>

text \<open>
  \<open>now\<close> is the clock reading of \<^verbatim>\<open>new Date()\<close>. The \<^verbatim>\<open>switch\<close> compares the key with
  \<^verbatim>\<open>===\<close>; its \<^verbatim>\<open>default\<close> takes every other value.
\<close>

definition generateMediationStrategy :: "'t Host \<Rightarrow> 't \<Rightarrow> string \<Rightarrow> MediationStrategy" where
  "generateMediationStrategy H now classification =
     (let localeDate = Date_toLocaleDateString H ''en-US'' ''Asia/Manila'' (Some now);
          commonObjectives =
            [''Clarify all facts and ensure both parties are fully heard'',
             ''Encourage parties to agree on appropriate restitution or compensation'',
             ''Promote respect and restore harmony within the barangay community'',
             ''Prevent escalation to formal court proceedings when possible'',
             ''Ensure compliance with applicable laws and ordinances''];
          (issues0, notForMediation0, outcomes0) =
            (if classification = ''theft'' then
               ([''Return of the allegedly stolen property or restitution of its value'',
                 ''Apology and acknowledgement of harm caused'',
                 ''Agreement on future conduct and respect for property rights''],
                [''Determination of criminal guilt for theft (requires court jurisdiction)''],
                [''Full restitution and documented apology'',
                 ''Community service or volunteer work as a gesture of remorse''])
             else if classification = ''threat'' then
               ([''Commitment by respondent to refrain from making threats or harassing statements'',
                 ''Discussion of any underlying disputes prompting the threat'',
                 ''Agreement on safety measures or distance requirements''],
                [''Prosecution of grave threats if elements are present''],
                [''Written undertaking to maintain peace and respect'',
                 ''Agreement on mutual non'' @ NBHYPHEN @
                   ''harassment or communications guidelines''])
             else if classification = ''defamation'' then
               ([''Withdrawal or correction of defamatory statements'',
                 ''Public or written apology to restore reputation'',
                 ''Agreement to avoid repeating defamatory statements in the future''],
                [''Criminal prosecution for serious defamation''],
                [''Signed retraction and apology'',
                 ''Community clarification to mitigate reputational harm''])
             else if classification = ''injury'' then
               ([''Compensation for medical expenses and lost wages'',
                 ''Agreement on avoiding physical confrontation in future'',
                 ''Exploring root causes of the altercation''],
                [''Determination of liability for serious physical injuries''],
                [''Payment of medical costs and damages'',
                 ''Mutual agreement to maintain distance and respect''])
             else
               ([''Clarification of the specific grievances presented'',
                 ''Identification of applicable laws and ordinances'',
                 ''Exploration of remedies agreeable to both parties''],
                [''Matters involving imprisonment of more than one year or fines over '' @
                   PESO @ ''5,000''],
                [''Amicable settlement documented with the Lupong Tagapamayapa'',
                 ''Referral to appropriate agencies if outside barangay jurisdiction'']));
          selectedObjectives = take 5 commonObjectives
      in \<lparr>objectives = selectedObjectives, issues = issues0,
          notForMediation = notForMediation0, outcomes = outcomes0\<rparr>)"

subsection \<open>generateQuestions\<close>

text \<open>
  A string is falsy exactly when it is empty. \<^verbatim>\<open>dateTime\<close> and \<^verbatim>\<open>location\<close> are values of
  form controls, hence strings.
\<close>

definition generateQuestions ::
  "'t Host \<Rightarrow> string \<Rightarrow> string \<Rightarrow> string \<Rightarrow> string \<Rightarrow> QuestionSet" where
  "generateQuestions H classification role location0 dateTime0 =
     (let party = (if role = ''complainant'' then ''you'' else ''you'');
          dt = (if dateTime0 \<noteq> []
                then Date_toLocaleString H ''en-US'' ''Asia/Manila'' (parseDate H dateTime0)
                else []);
          loc = (if location0 \<noteq> [] then location0 else ''the location'')
      in \<lparr>openEnded =
            [''Can you describe in your own words what happened at '' @ loc @ '' on '' @ dt @ ''?'',
             ''What events led up to the incident and how did you react?'',
             ''How has this incident affected you personally and your daily life?''],
          clarifying =
            [''What time did the incident occur and who else was present?'',
             ''Where exactly at '' @ loc @ '' did the interaction take place?'',
             ''Can you specify any statements or actions you find particularly significant?''],
          reflective =
            [''How do you think the other party felt during the incident?'',
             ''Looking back, is there anything you wish had been done differently?'',
             ''How has this dispute impacted your relationship with the other party?''],
          exploratory =
            [''What do you consider a fair and just resolution to this dispute?'',
             ''Are there any compromises you are willing to make to settle this matter?'',
             ''What would rebuilding trust look like for you?''],
          conscience =
            [''If the roles were reversed, how would you want to be treated?'',
             ''What message do you want to send to the community about resolving disputes?'',
             ''How would an amicable settlement benefit both you and the other party?'']\<rparr>)"

subsection \<open>The form and the page\<close>

text \<open>
  What the functions read from the document: the \<^verbatim>\<open>value\<close> of each control, by element
  id, and of the controls of each respondent block, by class.
\<close>

record RespondentValues =
  respondent_name :: string
  respondent_phone :: string
  respondent_email :: string
  respondent_address :: string

record Form =
  caseId_value :: string
  dateReceived_value :: string
  complainantName_value :: string
  complainantPhone_value :: string
  complainantEmail_value :: string
  complainantAddress_value :: string
  respondentContainer :: "RespondentValues list"
  incidentSummary_value :: string
  incidentLocation_value :: string
  incidentDateTime_value :: string

text \<open>
  What they write to it: the \<^verbatim>\<open>is-invalid\<close> class of the three required controls, the
  data last handed to \<^verbatim>\<open>renderReport\<close>, and the \<^verbatim>\<open>d-none\<close> class of the report section.
  Scrolling is left out.
\<close>

record Page =
  incidentSummary_invalid :: bool
  incidentLocation_invalid :: bool
  incidentDateTime_invalid :: bool
  reportContent :: "CaseReport option"
  reportSection_hidden :: bool

definition validateForm :: "Form \<Rightarrow> Page \<Rightarrow> bool \<times> Page" where
  "validateForm f pg =
     (let summaryBad = (incidentSummary_value f = [] \<or> length (trim (incidentSummary_value f)) < 30);
          locationBad = (incidentLocation_value f = [] \<or> length (trim (incidentLocation_value f)) = 0);
          dateBad = (incidentDateTime_value f = [])
      in (\<not> summaryBad \<and> \<not> locationBad \<and> \<not> dateBad,
          pg\<lparr>incidentSummary_invalid := summaryBad,
             incidentLocation_invalid := locationBad,
             incidentDateTime_invalid := dateBad\<rparr>))"

definition gatherRespondent :: "RespondentValues \<Rightarrow> PartyInfo" where
  "gatherRespondent d =
     \<lparr>name = trim (respondent_name d), phone = trim (respondent_phone d),
      email = trim (respondent_email d), address = trim (respondent_address d)\<rparr>"

definition gatherData :: "Form \<Rightarrow> FormData" where
  "gatherData f =
     (let complainant0 =
            \<lparr>name = trim (complainantName_value f), phone = trim (complainantPhone_value f),
             email = trim (complainantEmail_value f), address = trim (complainantAddress_value f)\<rparr>;
          respondents0 =
            filter (\<lambda>p. \<not> (name p = [] \<and> phone p = [] \<and> email p = [] \<and> address p = []))
              (map gatherRespondent (respondentContainer f));
          incident0 =
            \<lparr>summary = trim (incidentSummary_value f),
             location = trim (incidentLocation_value f),
             dateTime = incidentDateTime_value f\<rparr>;
          caseTitle0 = (if name complainant0 \<noteq> [] then name complainant0 @ '' Case''
                        else ''Complainant Case'')
      in \<lparr>caseId = trim (caseId_value f), dateReceived = dateReceived_value f,
          complainant = complainant0, respondents = respondents0, incident = incident0,
          caseTitle = caseTitle0\<rparr>)"

subsection \<open>generateReport\<close>

text \<open>
  \<open>reportData\<close> is the body of \<^verbatim>\<open>generateReport\<close> after the validation, up to the object
  it hands to \<^verbatim>\<open>renderReport\<close>.
\<close>

definition reportData :: "'t Host \<Rightarrow> 't \<Rightarrow> Form \<Rightarrow> CaseReport" where
  "reportData H now f =
     (let formData = gatherData f;
          classification = classifyCase (summary (incident formData));
          analysis0 = LEGAL_DATA classification;
          mediation0 = generateMediationStrategy H now classification;
          questions0 =
            \<lparr>complainantQuestions =
               generateQuestions H classification ''complainant''
                 (location (incident formData)) (dateTime (incident formData)),
             respondentQuestions =
               generateQuestions H classification ''respondent''
                 (location (incident formData)) (dateTime (incident formData))\<rparr>
      in FormData.extend formData
           (CaseReport.fields analysis0 mediation0 questions0))"

definition generateReport :: "'t Host \<Rightarrow> 't \<Rightarrow> Form \<Rightarrow> Page \<Rightarrow> Page" where
  "generateReport H now f pg =
     (let (valid, pg1) = validateForm f pg in
      if \<not> valid then pg1
      else pg1\<lparr>reportContent := Some (reportData H now f), reportSection_hidden := False\<rparr>)"

subsection \<open>A reference host\<close>

text \<open>
  One host, for the concrete examples; the general statements hold for every host. It
  models a browser whose own time zone is Asia/Manila: a string without a zone is read
  as Manila wall-clock time, and a valid time value is kept as that wall-clock time. It
  parses the strings a \<^verbatim>\<open>datetime-local\<close> control yields, \<^verbatim>\<open>YYYY-MM-DDTHH:mm\<close>, and gives
  NaN for a field out of bounds, as ECMA-262 requires, and for every other string. It
  prints as \<^verbatim>\<open>en-US\<close> does, \<^verbatim>\<open>5/1/2024, 8:00:00 PM\<close>, with a plain space before the day
  period, whatever locale is asked. It knows two time zones: \<^verbatim>\<open>Asia/Manila\<close>, eight hours
  ahead of UTC with no zone transition, and \<^verbatim>\<open>UTC\<close>; every other name it reads as
  \<^verbatim>\<open>Asia/Manila\<close>, the only zone the program asks for.
\<close>

record CivilTime =
  year :: nat
  month :: nat
  day :: nat
  hour :: nat
  minute :: nat

definition digitValue :: "char \<Rightarrow> nat option" where
  "digitValue c = map_of (zip ''0123456789'' [0, 1, 2, 3, 4, 5, 6, 7, 8, 9]) c"

fun numberFrom :: "nat \<Rightarrow> string \<Rightarrow> nat option" where
  "numberFrom n [] = Some n"
| "numberFrom n (c # cs) =
     (case digitValue c of None \<Rightarrow> None | Some d \<Rightarrow> numberFrom (10 * n + d) cs)"

definition isLeapYear :: "nat \<Rightarrow> bool" where
  "isLeapYear y = ((y mod 4 = 0 \<and> 0 < y mod 100) \<or> y mod 400 = 0)"

definition daysInMonth :: "nat \<Rightarrow> nat \<Rightarrow> nat" where
  "daysInMonth y m =
     (if m = 2 then (if isLeapYear y then 29 else 28)
      else if m = 4 \<or> m = 6 \<or> m = 9 \<or> m = 11 then 30
      else 31)"

definition parseLocalDateTime :: "string \<Rightarrow> CivilTime option" where
  "parseLocalDateTime s =
     (if length s = 16 \<and> s ! 4 = CHR ''-'' \<and> s ! 7 = CHR ''-'' \<and> s ! 10 = CHR ''T''
         \<and> s ! 13 = CHR '':'' then
        (case numberFrom 0 (take 4 s) of None \<Rightarrow> None | Some y \<Rightarrow>
         case numberFrom 0 (take 2 (drop 5 s)) of None \<Rightarrow> None | Some m \<Rightarrow>
         case numberFrom 0 (take 2 (drop 8 s)) of None \<Rightarrow> None | Some d \<Rightarrow>
         case numberFrom 0 (take 2 (drop 11 s)) of None \<Rightarrow> None | Some h \<Rightarrow>
         case numberFrom 0 (take 2 (drop 14 s)) of None \<Rightarrow> None | Some mi \<Rightarrow>
           if 1 \<le> m \<and> m \<le> 12 \<and> 1 \<le> d \<and> d \<le> daysInMonth y m \<and> h \<le> 23 \<and> mi \<le> 59
           then Some \<lparr>year = y, month = m, day = d, hour = h, minute = mi\<rparr>
           else None)
      else None)"

fun decimal :: "nat \<Rightarrow> string" where
  "decimal n =
     (if n < 10 then [''0123456789'' ! n]
      else decimal (n div 10) @ [''0123456789'' ! (n mod 10)])"

declare decimal.simps [simp del]

definition twoDigits :: "nat \<Rightarrow> string" where
  "twoDigits n = (if n < 10 then ''0'' @ decimal n else decimal n)"

definition formatCivilDate :: "CivilTime \<Rightarrow> string" where
  "formatCivilDate t =
     decimal (month t) @ ''/'' @ decimal (day t) @ ''/'' @
     decimal (if year t = 0 then 1 else year t)"

definition formatCivilDateTime :: "CivilTime \<Rightarrow> string" where
  "formatCivilDateTime t =
     formatCivilDate t @ '', '' @
     decimal (if hour t mod 12 = 0 then 12 else hour t mod 12) @ '':'' @
     twoDigits (minute t) @ '':00 '' @ (if hour t < 12 then ''AM'' else ''PM'')"

text \<open>The wall-clock time of a zone, from the wall-clock time of Manila.\<close>

definition previousDay :: "CivilTime \<Rightarrow> CivilTime" where
  "previousDay t =
     (if 1 < day t then t\<lparr>day := day t - 1\<rparr>
      else if 1 < month t
        then t\<lparr>month := month t - 1, day := daysInMonth (year t) (month t - 1)\<rparr>
      else t\<lparr>year := year t - 1, month := 12, day := 31\<rparr>)"

definition inTimeZone :: "string \<Rightarrow> CivilTime \<Rightarrow> CivilTime" where
  "inTimeZone timeZone t =
     (if timeZone = ''UTC''
      then (if 8 \<le> hour t then t\<lparr>hour := hour t - 8\<rparr>
            else (previousDay t)\<lparr>hour := hour t + 16\<rparr>)
      else t)"

definition referenceHost :: "CivilTime Host" where
  "referenceHost =
     \<lparr>parseDate = parseLocalDateTime,
      formatDateTime = (\<lambda>locales timeZone t. formatCivilDateTime (inTimeZone timeZone t)),
      formatDate = (\<lambda>locales timeZone t. formatCivilDate (inTimeZone timeZone t))\<rparr>"

text \<open>A clock reading of the reference host: 2 November 2026, 09:30.\<close>

definition referenceNow :: CivilTime where
  "referenceNow = \<lparr>year = 2026, month = 11, day = 2, hour = 9, minute = 30\<rparr>"

subsection \<open>The classifier in the words of the specification\<close>

text \<open>
  The specification of the classifier: the text is lower-cased, an ordered list of rules
  is evaluated, the category of the first rule one of whose keywords occurs in the text
  is returned, and \<open>general\<close> is returned when no rule matches. \<open>sublist k t\<close> says that
  \<open>k\<close> occurs in \<open>t\<close> as a run of consecutive characters.
\<close>

definition spec_rules :: "(string list \<times> string) list" where
  "spec_rules =
     [([''steal'', ''theft'', ''stole'', ''rob'', ''robbed'', ''take'', ''took'', ''taken'',
        ''takin'', ''missing''], ''theft''),
      ([''threat'', ''kill'', ''hurt'', ''intimidat''], ''threat''),
      ([''defam'', ''slander'', ''insult'', ''libel'', ''oral''], ''defamation''),
      ([''injur'', ''hit'', ''punch'', ''physical'', ''attack''], ''injury'')]"

definition spec_classify :: "string \<Rightarrow> string" where
  "spec_classify s =
     (case find (\<lambda>rule. \<exists>k\<in>set (fst rule). sublist k (toLowerCase s)) spec_rules of
        Some rule \<Rightarrow> snd rule
      | None \<Rightarrow> ''general'')"

section \<open>Properties\<close>

subsection \<open>Searching a text for literal alternatives\<close>

text \<open>
  \<^verbatim>\<open>test\<close> on an alternation of literals succeeds exactly when one of the literals is a
  contiguous part of the text.
\<close>

lemma startsWith_prefix: "startsWith p s = prefix p s"
  by (induction p s rule: startsWith.induct) simp_all

lemma matchHere_prefix: "matchHere alts s = (\<exists>k\<in>set alts. prefix k s)"
  by (simp add: matchHere_def list_ex_iff startsWith_prefix)

lemma RegExp_test_sublist: "RegExp_test alts s = (\<exists>k\<in>set alts. sublist k s)"
proof (induction s)
  case Nil
  show ?case by (simp add: matchHere_prefix)
next
  case (Cons c cs)
  show ?case
    by (simp add: Cons.IH matchHere_prefix sublist_Cons_right bex_disj_distrib)
qed

lemma sublist_test: "sublist k s = RegExp_test [k] s"
  by (simp add: RegExp_test_sublist)

lemmas pattern_defs = theftPattern_def threatPattern_def defamationPattern_def injuryPattern_def

lemmas lower_defs = toLowerCase_def toLowerCase_unit_def upperCaseUnits_def lowerCaseUnits_def

lemmas classify_defs = classifyCase_def lower_defs pattern_defs matchHere_def

lemma isWhiteSpace_cases:
  "isWhiteSpace c \<Longrightarrow> c = CHR 0x09 \<or> c = CHR 0x0A \<or> c = CHR 0x0B \<or> c = CHR 0x0C \<or> c = CHR 0x0D \<or> c = CHR 0x20 \<or> c = CHR 0xA0"
  by (simp add: isWhiteSpace_def)

lemma toLowerCase_unit_whiteSpace: "isWhiteSpace c \<Longrightarrow> toLowerCase_unit c = c"
  apply (drule isWhiteSpace_cases)
  apply (elim disjE)
  apply (simp_all add: toLowerCase_unit_def upperCaseUnits_def lowerCaseUnits_def)
  done

lemma whiteSpace_no_match:
  assumes "isWhiteSpace c"
  shows "\<not> matchHere theftPattern (c # cs) \<and> \<not> matchHere threatPattern (c # cs)
    \<and> \<not> matchHere defamationPattern (c # cs) \<and> \<not> matchHere injuryPattern (c # cs)"
  using isWhiteSpace_cases [OF assms]
  apply (elim disjE)
  apply (simp_all add: matchHere_def pattern_defs)
  done

lemma empty_no_match:
  "\<not> matchHere theftPattern [] \<and> \<not> matchHere threatPattern []
    \<and> \<not> matchHere defamationPattern [] \<and> \<not> matchHere injuryPattern []"
  by (simp add: matchHere_def pattern_defs)

lemma whiteSpace_no_test:
  "list_all isWhiteSpace s \<Longrightarrow>
     \<not> RegExp_test theftPattern s \<and> \<not> RegExp_test threatPattern s
     \<and> \<not> RegExp_test defamationPattern s \<and> \<not> RegExp_test injuryPattern s"
  by (induction s) (simp_all add: empty_no_match whiteSpace_no_match)

lemma toLowerCase_whiteSpace: "list_all isWhiteSpace s \<Longrightarrow> toLowerCase s = s"
  by (induction s) (simp_all add: toLowerCase_def toLowerCase_unit_whiteSpace)

lemma classifyCase_whiteSpace: "list_all isWhiteSpace s \<Longrightarrow> classifyCase s = ''general''"
  by (simp add: classifyCase_def toLowerCase_whiteSpace whiteSpace_no_test)

lemma classifyCase_cascade:
  "classifyCase s =
     (if \<exists>k\<in>set theftPattern. sublist k (toLowerCase s) then ''theft''
      else if \<exists>k\<in>set threatPattern. sublist k (toLowerCase s) then ''threat''
      else if \<exists>k\<in>set defamationPattern. sublist k (toLowerCase s) then ''defamation''
      else if \<exists>k\<in>set injuryPattern. sublist k (toLowerCase s) then ''injury''
      else ''general'')"
  by (simp add: classifyCase_def RegExp_test_sublist)

lemma spec_classify_cascade:
  "spec_classify s =
     (if \<exists>k\<in>set theftPattern. sublist k (toLowerCase s) then ''theft''
      else if \<exists>k\<in>set threatPattern. sublist k (toLowerCase s) then ''threat''
      else if \<exists>k\<in>set defamationPattern. sublist k (toLowerCase s) then ''defamation''
      else if \<exists>k\<in>set injuryPattern. sublist k (toLowerCase s) then ''injury''
      else ''general'')"
  unfolding spec_classify_def spec_rules_def pattern_defs
  by (simp only: find.simps fst_conv snd_conv option.case if_distrib [of "case_option _ _"] cong: if_cong)

subsection \<open>Classification\<close>

text \<open>
  Claim C1. For every summary, \<^verbatim>\<open>classifyCase\<close> returns what the specification's ordered
  rule list returns on the lower-cased text: the category of the first of the rules
  theft, threat, defamation, injury that has a keyword in the text, else general. A summary
  with a theft keyword and an injury keyword is classified theft. The empty summary, the
  summary of three spaces and every summary of white space only are classified general.
\<close>

theorem classifyCase_first_matching_rule:
  "classifyCase s = spec_classify s
   \<and> (kt \<in> set theftPattern \<and> sublist kt (toLowerCase s)
        \<and> ki \<in> set injuryPattern \<and> sublist ki (toLowerCase s) \<longrightarrow> classifyCase s = ''theft'')
   \<and> classifyCase [] = ''general''
   \<and> classifyCase ''   '' = ''general''
   \<and> (list_all isWhiteSpace w \<longrightarrow> classifyCase w = ''general'')"
proof -
  have refines: "classifyCase s = spec_classify s"
    by (simp only: classifyCase_cascade spec_classify_cascade)
  have theft_first: "classifyCase s = ''theft''"
    if "kt \<in> set theftPattern" "sublist kt (toLowerCase s)"
    using that by (auto simp: classifyCase_cascade)
  have blank: "classifyCase w = ''general''" if "list_all isWhiteSpace w" for w
    using that by (rule classifyCase_whiteSpace)
  have "classifyCase [] = ''general''"
    by (rule blank) simp
  moreover have "classifyCase ''   '' = ''general''"
    by (rule blank) (simp add: isWhiteSpace_def)
  ultimately show ?thesis
    using refines theft_first blank by blast
qed

text \<open>
  An instance: a summary with the theft keyword \<open>took\<close> and the injury keyword \<open>hit\<close>,
  and a summary made of a tab, a space and a no-break space.
\<close>

theorem classifyCase_first_matching_rule_witness:
  "''took'' \<in> set theftPattern
   \<and> sublist ''took'' (toLowerCase ''He TOOK my phone and hit me'')
   \<and> ''hit'' \<in> set injuryPattern
   \<and> sublist ''hit'' (toLowerCase ''He TOOK my phone and hit me'')
   \<and> classifyCase ''He TOOK my phone and hit me'' = ''theft''
   \<and> classifyCase ''He TOOK my phone and hit me'' = spec_classify ''He TOOK my phone and hit me''
   \<and> list_all isWhiteSpace [CHR 0x09, CHR 0x20, CHR 0xA0]
   \<and> classifyCase [CHR 0x09, CHR 0x20, CHR 0xA0] = ''general''"
proof -
  have lower: "toLowerCase ''He TOOK my phone and hit me'' = ''he took my phone and hit me''"
    by (simp add: lower_defs)
  have h1: "''took'' \<in> set theftPattern" and h2: "''hit'' \<in> set injuryPattern"
    by (simp_all add: pattern_defs)
  have h3: "sublist ''took'' (toLowerCase ''He TOOK my phone and hit me'')"
    and h4: "sublist ''hit'' (toLowerCase ''He TOOK my phone and hit me'')"
    by (simp_all add: lower sublist_test matchHere_def)
  have h5: "list_all isWhiteSpace [CHR 0x09, CHR 0x20, CHR 0xA0]"
    by (simp add: isWhiteSpace_def)
  from classifyCase_first_matching_rule
         [of "''He TOOK my phone and hit me''" "''took''" "''hit''" "[CHR 0x09, CHR 0x20, CHR 0xA0]"]
       h1 h2 h3 h4 h5
  show ?thesis by blast
qed

text \<open>
  Claim C10. The keywords match anywhere in the lower-cased summary, also inside a longer
  word: a summary whose lower-cased text is \<open>p @ k @ q\<close> for a theft keyword \<open>k\<close> and any
  \<open>p\<close> and \<open>q\<close> is classified theft, as are \<open>mistake\<close> and \<open>intake\<close>; a summary with a
  defamation keyword in it, such as \<open>oral\<close> in \<open>moral\<close>, and no theft or threat keyword is
  classified defamation.
\<close>

theorem classifyCase_substring_match:
  "(k \<in> set theftPattern \<and> toLowerCase s = p @ k @ q \<longrightarrow> classifyCase s = ''theft'')
   \<and> classifyCase ''mistake'' = ''theft''
   \<and> classifyCase ''intake'' = ''theft''
   \<and> (k' \<in> set defamationPattern \<and> toLowerCase t = p' @ k' @ q'
        \<and> \<not> (\<exists>h\<in>set (theftPattern @ threatPattern). sublist h (toLowerCase t))
        \<longrightarrow> classifyCase t = ''defamation'')
   \<and> ''oral'' \<in> set defamationPattern
   \<and> classifyCase ''moral'' = ''defamation''"
proof -
  have theft: "classifyCase s = ''theft''"
    if "k \<in> set theftPattern" "toLowerCase s = p @ k @ q"
  proof -
    from that(2) have "sublist k (toLowerCase s)"
      by (auto simp: sublist_def)
    with that(1) show ?thesis
      by (auto simp: classifyCase_cascade)
  qed
  have defamation: "classifyCase t = ''defamation''"
    if "k' \<in> set defamationPattern" "toLowerCase t = p' @ k' @ q'"
      "\<not> (\<exists>h\<in>set (theftPattern @ threatPattern). sublist h (toLowerCase t))"
  proof -
    from that(2) have "sublist k' (toLowerCase t)"
      by (auto simp: sublist_def)
    with that(1,3) show ?thesis
      by (auto simp: classifyCase_cascade)
  qed
  have "classifyCase ''mistake'' = ''theft''" "classifyCase ''intake'' = ''theft''"
    "classifyCase ''moral'' = ''defamation''"
    by (simp_all add: classify_defs)
  moreover have "''oral'' \<in> set defamationPattern"
    by (simp add: pattern_defs)
  ultimately show ?thesis
    using theft defamation by blast
qed

text \<open>
  An instance: \<open>take\<close> inside \<open>Mistake\<close>, and \<open>oral\<close> inside \<open>Moral\<close> in a summary with
  no theft or threat keyword.
\<close>

theorem classifyCase_substring_match_witness:
  "''take'' \<in> set theftPattern
   \<and> toLowerCase ''It was a Mistake'' = ''it was a mis'' @ ''take'' @ ''''
   \<and> classifyCase ''It was a Mistake'' = ''theft''
   \<and> ''oral'' \<in> set defamationPattern
   \<and> toLowerCase ''A Moral matter'' = ''a m'' @ ''oral'' @ '' matter''
   \<and> \<not> (\<exists>h\<in>set (theftPattern @ threatPattern). sublist h (toLowerCase ''A Moral matter''))
   \<and> classifyCase ''A Moral matter'' = ''defamation''"
proof -
  have h1: "''take'' \<in> set theftPattern" and h2: "''oral'' \<in> set defamationPattern"
    by (simp_all add: pattern_defs)
  have h3: "toLowerCase ''It was a Mistake'' = ''it was a mis'' @ ''take'' @ ''''"
    and h4: "toLowerCase ''A Moral matter'' = ''a m'' @ ''oral'' @ '' matter''"
    by (simp_all add: lower_defs)
  have "\<not> RegExp_test (theftPattern @ threatPattern) (toLowerCase ''A Moral matter'')"
    by (simp add: lower_defs pattern_defs matchHere_def)
  then have h5: "\<not> (\<exists>h\<in>set (theftPattern @ threatPattern). sublist h (toLowerCase ''A Moral matter''))"
    unfolding RegExp_test_sublist .
  from classifyCase_substring_match
         [of "''take''" "''It was a Mistake''" "''it was a mis''" "''''"
             "''oral''" "''A Moral matter''" "''a m''" "'' matter''"]
       h1 h2 h3 h4 h5
  show ?thesis by blast
qed

subsection \<open>The table of legal data\<close>

lemma classifyCase_range: "classifyCase s \<in> {''theft'', ''threat'', ''defamation'', ''injury'', ''general''}"
  by (simp add: classifyCase_def Let_def)

lemma classifyCase_examples:
  "classifyCase ''steal'' = ''theft''" "classifyCase ''kill'' = ''threat''"
  "classifyCase ''libel'' = ''defamation''" "classifyCase ''punch'' = ''injury''"
  "classifyCase '''' = ''general''"
  by (simp_all add: classify_defs)

lemma LEGAL_DATA_keys:
  "map fst LEGAL_DATA_entries = [''theft'', ''threat'', ''defamation'', ''injury'', ''general'']"
  by (simp add: LEGAL_DATA_entries_def)

lemma LEGAL_DATA_lookup:
  "LEGAL_DATA ''theft'' = Some LEGAL_DATA_theft"
  "LEGAL_DATA ''threat'' = Some LEGAL_DATA_threat"
  "LEGAL_DATA ''defamation'' = Some LEGAL_DATA_defamation"
  "LEGAL_DATA ''injury'' = Some LEGAL_DATA_injury"
  "LEGAL_DATA ''general'' = Some LEGAL_DATA_general"
  by (simp_all add: LEGAL_DATA_def LEGAL_DATA_entries_def)

lemma LEGAL_DATA_classifyCase: "\<exists>r. LEGAL_DATA (classifyCase s) = Some r"
  using classifyCase_range [of s] by (auto simp: LEGAL_DATA_lookup)

text \<open>
  Claim C2. The table has exactly one entry for each of the five categories, which are
  exactly the values \<^verbatim>\<open>classifyCase\<close> can return, so the property read in
  \<^verbatim>\<open>generateReport\<close> always finds a record. The records of theft, threat, defamation and
  injury have at least one violation; the record of general has no jurisprudence and no
  counter-charge.
\<close>

theorem LEGAL_DATA_total:
  "map fst LEGAL_DATA_entries = [''theft'', ''threat'', ''defamation'', ''injury'', ''general'']
   \<and> range classifyCase = set (map fst LEGAL_DATA_entries)
   \<and> (\<exists>r. LEGAL_DATA (classifyCase s) = Some r)
   \<and> (\<exists>r. LEGAL_DATA ''theft'' = Some r \<and> violations r \<noteq> [])
   \<and> (\<exists>r. LEGAL_DATA ''threat'' = Some r \<and> violations r \<noteq> [])
   \<and> (\<exists>r. LEGAL_DATA ''defamation'' = Some r \<and> violations r \<noteq> [])
   \<and> (\<exists>r. LEGAL_DATA ''injury'' = Some r \<and> violations r \<noteq> [])
   \<and> (\<exists>r. LEGAL_DATA ''general'' = Some r \<and> jurisprudence r = [] \<and> counters r = [])"
proof -
  have "range classifyCase = {''theft'', ''threat'', ''defamation'', ''injury'', ''general''}"
  proof
    show "range classifyCase \<subseteq> {''theft'', ''threat'', ''defamation'', ''injury'', ''general''}"
      using classifyCase_range by blast
    have "''theft'' \<in> range classifyCase" "''threat'' \<in> range classifyCase"
      "''defamation'' \<in> range classifyCase" "''injury'' \<in> range classifyCase"
      "''general'' \<in> range classifyCase"
      using classifyCase_examples by (metis rangeI)+
    then show "{''theft'', ''threat'', ''defamation'', ''injury'', ''general''} \<subseteq> range classifyCase"
      by blast
  qed
  then have keys: "range classifyCase = set (map fst LEGAL_DATA_entries)"
    by (simp only: LEGAL_DATA_keys list.set)
  have "violations LEGAL_DATA_theft \<noteq> []"
    by (simp add: LEGAL_DATA_theft_def)
  moreover have "violations LEGAL_DATA_threat \<noteq> []"
    by (simp add: LEGAL_DATA_threat_def)
  moreover have "violations LEGAL_DATA_defamation \<noteq> []"
    by (simp add: LEGAL_DATA_defamation_def)
  moreover have "violations LEGAL_DATA_injury \<noteq> []"
    by (simp add: LEGAL_DATA_injury_def)
  moreover have "jurisprudence LEGAL_DATA_general = [] \<and> counters LEGAL_DATA_general = []"
    by (simp add: LEGAL_DATA_general_def)
  ultimately show ?thesis
    using LEGAL_DATA_keys keys LEGAL_DATA_classifyCase [of s] by (simp add: LEGAL_DATA_lookup)
qed

subsection \<open>The mediation strategy\<close>

lemma generateMediationStrategy_clock:
  "generateMediationStrategy H now c = generateMediationStrategy H' now' c"
  by (simp add: generateMediationStrategy_def Let_def)

text \<open>
  Claim C5. For every classification the strategy has exactly five objectives, and they
  are the same list whatever the classification, the host and the clock are.
\<close>

theorem objectives_fixed:
  "length (objectives (generateMediationStrategy H now c)) = 5
   \<and> objectives (generateMediationStrategy H now c1) = objectives (generateMediationStrategy H' now' c2)"
  by (simp add: generateMediationStrategy_def Let_def split_beta)

subsection \<open>The questions\<close>

lemmas host_defs = referenceHost_def parseLocalDateTime_def digitValue_def daysInMonth_def
  isLeapYear_def formatCivilDateTime_def formatCivilDate_def twoDigits_def decimal.simps
  previousDay_def inTimeZone_def Date_toLocaleString_def

text \<open>
  Claim C6. Each of the five lists of a question set has exactly three entries, and the
  question set is the same for both roles and for every classification: given the host,
  it depends on the location and the date and time only.
\<close>

theorem generateQuestions_three_each:
  "length (openEnded (generateQuestions H c r loc dt)) = 3
   \<and> length (clarifying (generateQuestions H c r loc dt)) = 3
   \<and> length (reflective (generateQuestions H c r loc dt)) = 3
   \<and> length (exploratory (generateQuestions H c r loc dt)) = 3
   \<and> length (conscience (generateQuestions H c r loc dt)) = 3
   \<and> generateQuestions H c r loc dt = generateQuestions H c' r' loc dt"
  by (simp add: generateQuestions_def Let_def)

text \<open>
  Claim C3, as stated, fails: the location is also put into the second clarifying
  question. On the reference host, two locations give two different second clarifying
  questions.
\<close>

theorem location_in_clarifying_counterexample:
  "clarifying (generateQuestions referenceHost ''theft'' ''complainant'' ''Purok 3''
       ''2024-05-01T20:00'') ! 1
     = ''Where exactly at Purok 3 did the interaction take place?''
   \<and> clarifying (generateQuestions referenceHost ''theft'' ''complainant'' ''Sitio 5''
       ''2024-05-01T20:00'') ! 1
     = ''Where exactly at Sitio 5 did the interaction take place?''
   \<and> clarifying (generateQuestions referenceHost ''theft'' ''complainant'' ''Purok 3''
       ''2024-05-01T20:00'') ! 1
     \<noteq> clarifying (generateQuestions referenceHost ''theft'' ''complainant'' ''Sitio 5''
       ''2024-05-01T20:00'') ! 1"
  by (simp add: generateQuestions_def)

text \<open>
  Claim C3, amended. The location, or its placeholder, is put into the first open-ended
  question and into the second clarifying question. The date and time, formatted by the
  host for the locale \<^verbatim>\<open>en-US\<close> in the fixed time zone \<^verbatim>\<open>Asia/Manila\<close> (Philippine Standard
  Time), is put into the first open-ended question only: the clarifying questions do not
  change with it. Every other question, that is the second and third open-ended ones, the
  first and third clarifying ones and all reflective, exploratory and conscience ones, is
  the same for every location, date and time, role, classification and host. On the
  reference host the question for \<^verbatim>\<open>2024-05-01T20:00\<close> holds the Manila time, 8 PM, where
  the zone \<^verbatim>\<open>UTC\<close> would print noon.
\<close>

theorem generateQuestions_interpolation:
  "openEnded (generateQuestions H c r loc dt) ! 0
     = ''Can you describe in your own words what happened at ''
       @ (if loc = [] then ''the location'' else loc) @ '' on ''
       @ (if dt = [] then []
          else Date_toLocaleString H ''en-US'' ''Asia/Manila'' (parseDate H dt)) @ ''?''
   \<and> clarifying (generateQuestions H c r loc dt) ! 1
     = ''Where exactly at '' @ (if loc = [] then ''the location'' else loc)
       @ '' did the interaction take place?''
   \<and> clarifying (generateQuestions H c r loc dt) = clarifying (generateQuestions H' c' r' loc dt')
   \<and> tl (openEnded (generateQuestions H c r loc dt))
     = tl (openEnded (generateQuestions H' c' r' loc' dt'))
   \<and> clarifying (generateQuestions H c r loc dt) ! 0
     = clarifying (generateQuestions H' c' r' loc' dt') ! 0
   \<and> clarifying (generateQuestions H c r loc dt) ! 2
     = clarifying (generateQuestions H' c' r' loc' dt') ! 2
   \<and> reflective (generateQuestions H c r loc dt)
     = reflective (generateQuestions H' c' r' loc' dt')
   \<and> exploratory (generateQuestions H c r loc dt)
     = exploratory (generateQuestions H' c' r' loc' dt')
   \<and> conscience (generateQuestions H c r loc dt)
     = conscience (generateQuestions H' c' r' loc' dt')
   \<and> openEnded (generateQuestions referenceHost c r ''Purok 3'' ''2024-05-01T20:00'') ! 0
     = ''Can you describe in your own words what happened at Purok 3 on 5/1/2024, 8:00:00 PM?''
   \<and> Date_toLocaleString referenceHost ''en-US'' ''UTC''
       (parseDate referenceHost ''2024-05-01T20:00'')
     = ''5/1/2024, 12:00:00 PM''"
proof -
  have manila: "Date_toLocaleString referenceHost ''en-US'' ''Asia/Manila''
      (parseDate referenceHost ''2024-05-01T20:00'') = ''5/1/2024, 8:00:00 PM''"
    by (simp add: host_defs)
  have utc: "Date_toLocaleString referenceHost ''en-US'' ''UTC''
      (parseDate referenceHost ''2024-05-01T20:00'') = ''5/1/2024, 12:00:00 PM''"
    by (simp add: host_defs)
  show ?thesis
    by (simp add: generateQuestions_def Let_def manila utc)
qed

text \<open>
  Claim C7, as stated, fails for a date and time that cannot be parsed: it is not empty,
  so it is formatted, and the text of an invalid date is \<^verbatim>\<open>Invalid Date\<close>. The month 13
  is out of bounds.
\<close>

theorem unparseable_dateTime_counterexample:
  "''2024-13-01T20:00'' \<noteq> []
   \<and> parseDate referenceHost ''2024-13-01T20:00'' = None
   \<and> openEnded (generateQuestions referenceHost ''theft'' ''complainant'' ''Purok 3''
       ''2024-13-01T20:00'') ! 0
     = ''Can you describe in your own words what happened at Purok 3 on Invalid Date?''
   \<and> openEnded (generateQuestions referenceHost ''theft'' ''complainant'' ''Purok 3''
       ''2024-13-01T20:00'') ! 0
     \<noteq> ''Can you describe in your own words what happened at Purok 3 on ?''"
  by (simp add: generateQuestions_def host_defs)

text \<open>
  Claim C7, amended. A missing (empty) location gives the questions of the location
  \<^verbatim>\<open>the location\<close>. A missing (empty) date and time puts the empty text into the date
  portion of the first open-ended question. A date and time that is not empty and that
  the host cannot parse puts \<^verbatim>\<open>Invalid Date\<close> there.
\<close>

theorem generateQuestions_missing_values:
  "generateQuestions H c r [] dt = generateQuestions H c r ''the location'' dt
   \<and> openEnded (generateQuestions H c r loc []) ! 0
     = ''Can you describe in your own words what happened at ''
       @ (if loc = [] then ''the location'' else loc) @ '' on ?''
   \<and> (dt \<noteq> [] \<and> parseDate H dt = None \<longrightarrow>
        openEnded (generateQuestions H c r loc dt) ! 0
          = ''Can you describe in your own words what happened at ''
            @ (if loc = [] then ''the location'' else loc) @ '' on Invalid Date?'')"
  by (simp add: generateQuestions_def Let_def Date_toLocaleString_def)

text \<open>
  An instance on the reference host: the month 13 with a missing location, and a
  missing date and time.
\<close>

theorem generateQuestions_missing_values_witness:
  "''2024-13-01T20:00'' \<noteq> []
   \<and> parseDate referenceHost ''2024-13-01T20:00'' = None
   \<and> openEnded (generateQuestions referenceHost ''injury'' ''respondent'' [] ''2024-13-01T20:00'') ! 0
     = ''Can you describe in your own words what happened at the location on Invalid Date?''
   \<and> openEnded (generateQuestions referenceHost ''injury'' ''respondent'' ''Sitio 5'' []) ! 0
     = ''Can you describe in your own words what happened at Sitio 5 on ?''"
proof -
  have h1: "''2024-13-01T20:00'' \<noteq> []"
    by simp
  have h2: "parseDate referenceHost ''2024-13-01T20:00'' = None"
    by (simp add: host_defs)
  have h3: "openEnded (generateQuestions referenceHost ''injury'' ''respondent'' [] ''2024-13-01T20:00'') ! 0
      = ''Can you describe in your own words what happened at the location on Invalid Date?''"
    using generateQuestions_missing_values
            [of referenceHost "''injury''" "''respondent''" "''2024-13-01T20:00''" "[]",
             THEN conjunct2, THEN conjunct2] h1 h2
    by simp
  have h4: "openEnded (generateQuestions referenceHost ''injury'' ''respondent'' ''Sitio 5'' []) ! 0
      = ''Can you describe in your own words what happened at Sitio 5 on ?''"
    using generateQuestions_missing_values
            [of referenceHost "''injury''" "''respondent''" _ "''Sitio 5''",
             THEN conjunct2, THEN conjunct1]
    by simp
  from h1 h2 h3 h4 show ?thesis
    by (simp only: simp_thms)
qed

subsection \<open>The report\<close>

lemma trim_no_space:
  "trim ''Someone took my neighbor's carabao while I was sleeping''
     = ''Someone took my neighbor's carabao while I was sleeping''"
  "trim ''Purok 3, San Pedro City'' = ''Purok 3, San Pedro City''"
  by (simp_all add: trim_def isWhiteSpace_def)

lemma generateReport_valid:
  "fst (validateForm f pg) \<Longrightarrow>
     reportContent (generateReport H now f pg) = Some (reportData H now f)
     \<and> \<not> reportSection_hidden (generateReport H now f pg)"
  by (simp add: generateReport_def split_beta)

lemma generateReport_invalid:
  "\<not> fst (validateForm f pg) \<Longrightarrow> generateReport H now f pg = snd (validateForm f pg)"
  by (simp add: generateReport_def split_beta)

text \<open>
  Claim C4. The clock is the only input of the pipeline that changes between two runs
  on the same form in the same browser. The strategy, the report data and the page after
  \<^verbatim>\<open>generateReport\<close> are the same for any two clock readings: the strategy reads the clock
  and does not use it, and nothing is drawn at random.
\<close>

theorem pipeline_deterministic:
  "generateMediationStrategy H now1 c = generateMediationStrategy H now2 c
   \<and> reportData H now1 f = reportData H now2 f
   \<and> generateReport H now1 f pg = generateReport H now2 f pg"
proof -
  have strategy: "generateMediationStrategy H now1 c = generateMediationStrategy H now2 c" for c
    by (rule generateMediationStrategy_clock)
  have report: "reportData H now1 f = reportData H now2 f"
    by (simp add: reportData_def strategy)
  have "generateReport H now1 f pg = generateReport H now2 f pg"
    by (simp only: generateReport_def report)
  with strategy report show ?thesis
    by simp
qed

text \<open>
  Claim C8. A form with the summary, location and date and time of the scenario, whatever
  its other fields, passes the validation and is rendered; its report is classified theft,
  has the nature \<^verbatim>\<open>Theft / Qualified Theft\<close>, has the return of the property among the
  issues for mediation, and its first open-ended question for the complainant holds the
  location and the host's formatting of the date and time, which on the reference host
  is \<^verbatim>\<open>5/1/2024, 8:00:00 PM\<close>.
\<close>

theorem carabao_scenario:
  "(let f = f0\<lparr>incidentSummary_value := ''Someone took my neighbor's carabao while I was sleeping'',
               incidentLocation_value := ''Purok 3, San Pedro City'',
               incidentDateTime_value := ''2024-05-01T20:00''\<rparr>;
        r = reportData H now f
    in fst (validateForm f pg)
       \<and> reportContent (generateReport H now f pg) = Some r
       \<and> classifyCase (summary (incident r)) = ''theft''
       \<and> map_option nature (analysis r) = Some ''Theft / Qualified Theft''
       \<and> ''Return of the allegedly stolen property or restitution of its value''
            \<in> set (issues (mediation r))
       \<and> openEnded (complainantQuestions (questions r)) ! 0
            = ''Can you describe in your own words what happened at Purok 3, San Pedro City on ''
              @ Date_toLocaleString H ''en-US'' ''Asia/Manila'' (parseDate H ''2024-05-01T20:00'') @ ''?''
       \<and> Date_toLocaleString referenceHost ''en-US'' ''Asia/Manila''
            (parseDate referenceHost ''2024-05-01T20:00'')
            = ''5/1/2024, 8:00:00 PM'')"
proof -
  define f where "f = f0\<lparr>incidentSummary_value := ''Someone took my neighbor's carabao while I was sleeping'',
               incidentLocation_value := ''Purok 3, San Pedro City'',
               incidentDateTime_value := ''2024-05-01T20:00''\<rparr>"
  have given: "incidentSummary_value f = ''Someone took my neighbor's carabao while I was sleeping''"
    "incidentLocation_value f = ''Purok 3, San Pedro City''"
    "incidentDateTime_value f = ''2024-05-01T20:00''"
    by (simp_all add: f_def)
  have valid: "fst (validateForm f pg)"
    by (simp add: validateForm_def given trim_no_space)
  have incident: "incident (gatherData f)
      = \<lparr>summary = ''Someone took my neighbor's carabao while I was sleeping'',
         location = ''Purok 3, San Pedro City'', dateTime = ''2024-05-01T20:00''\<rparr>"
    by (simp add: gatherData_def Let_def given trim_no_space)
  have theft: "classifyCase ''Someone took my neighbor's carabao while I was sleeping'' = ''theft''"
    by (simp add: classify_defs)
  have nature: "nature LEGAL_DATA_theft = ''Theft / Qualified Theft''"
    by (simp add: LEGAL_DATA_theft_def)
  have issues: "''Return of the allegedly stolen property or restitution of its value''
      \<in> set (issues (generateMediationStrategy H now ''theft''))"
    by (simp add: generateMediationStrategy_def)
  have question: "openEnded (generateQuestions H ''theft'' ''complainant''
        ''Purok 3, San Pedro City'' ''2024-05-01T20:00'') ! 0
      = ''Can you describe in your own words what happened at Purok 3, San Pedro City on ''
        @ Date_toLocaleString H ''en-US'' ''Asia/Manila'' (parseDate H ''2024-05-01T20:00'') @ ''?''"
    by (simp add: generateQuestions_def)
  have formatted: "Date_toLocaleString referenceHost ''en-US'' ''Asia/Manila''
            (parseDate referenceHost ''2024-05-01T20:00'')
      = ''5/1/2024, 8:00:00 PM''"
    by (simp add: host_defs)
  have r1: "classifyCase (summary (incident (reportData H now f))) = ''theft''"
    by (simp add: reportData_def Let_def incident theft FormData.defs CaseReport.defs)
  have r2: "map_option nature (analysis (reportData H now f)) = Some ''Theft / Qualified Theft''"
    by (simp add: reportData_def Let_def incident theft FormData.defs CaseReport.defs
        LEGAL_DATA_lookup nature)
  have r3: "''Return of the allegedly stolen property or restitution of its value''
      \<in> set (issues (mediation (reportData H now f)))"
    using issues by (simp add: reportData_def Let_def incident theft FormData.defs CaseReport.defs)
  have r4: "openEnded (complainantQuestions (questions (reportData H now f))) ! 0
      = ''Can you describe in your own words what happened at Purok 3, San Pedro City on ''
        @ Date_toLocaleString H ''en-US'' ''Asia/Manila'' (parseDate H ''2024-05-01T20:00'') @ ''?''"
    using question by (simp add: reportData_def Let_def incident theft FormData.defs CaseReport.defs)
  from valid generateReport_valid [OF valid, of H now] r1 r2 r3 r4 formatted
  show ?thesis
    unfolding Let_def f_def [symmetric] by blast
qed

text \<open>
  Claim C9. When the trimmed summary has fewer than 30 characters, the validation fails
  and \<^verbatim>\<open>generateReport\<close> returns the page the validation left: the summary is marked
  invalid, no report data is built or rendered, and the report section stays as it was.
\<close>

theorem short_summary_no_report:
  "length (trim (incidentSummary_value f)) < 30 \<Longrightarrow>
     \<not> fst (validateForm f pg)
     \<and> generateReport H now f pg = snd (validateForm f pg)
     \<and> incidentSummary_invalid (generateReport H now f pg)
     \<and> reportContent (generateReport H now f pg) = reportContent pg
     \<and> reportSection_hidden (generateReport H now f pg) = reportSection_hidden pg"
proof -
  assume short: "length (trim (incidentSummary_value f)) < 30"
  then have invalid: "\<not> fst (validateForm f pg)"
    by (simp add: validateForm_def Let_def)
  have page: "generateReport H now f pg = snd (validateForm f pg)"
    using invalid by (rule generateReport_invalid)
  have "incidentSummary_invalid (snd (validateForm f pg))"
    using short by (simp add: validateForm_def Let_def)
  moreover have "reportContent (snd (validateForm f pg)) = reportContent pg"
    "reportSection_hidden (snd (validateForm f pg)) = reportSection_hidden pg"
    by (simp_all add: validateForm_def Let_def)
  ultimately show ?thesis
    using invalid page by simp
qed

text \<open>
  An instance: a summary of 29 characters between spaces, on a page that shows no
  report.
\<close>

theorem short_summary_no_report_witness:
  "length (trim ''  He took my bike from my yard.  '') = 29
   \<and> reportContent
       (generateReport referenceHost referenceNow
          \<lparr>caseId_value = ''2024-017'', dateReceived_value = ''2024-05-02'',
           complainantName_value = ''Juan Dela Cruz'', complainantPhone_value = [],
           complainantEmail_value = [], complainantAddress_value = [],
           respondentContainer = [],
           incidentSummary_value = ''  He took my bike from my yard.  '',
           incidentLocation_value = ''Purok 3, San Pedro City'',
           incidentDateTime_value = ''2024-05-01T20:00''\<rparr>
          \<lparr>incidentSummary_invalid = False, incidentLocation_invalid = False,
           incidentDateTime_invalid = False, reportContent = None,
           reportSection_hidden = True\<rparr>) = None
   \<and> incidentSummary_invalid
       (generateReport referenceHost referenceNow
          \<lparr>caseId_value = ''2024-017'', dateReceived_value = ''2024-05-02'',
           complainantName_value = ''Juan Dela Cruz'', complainantPhone_value = [],
           complainantEmail_value = [], complainantAddress_value = [],
           respondentContainer = [],
           incidentSummary_value = ''  He took my bike from my yard.  '',
           incidentLocation_value = ''Purok 3, San Pedro City'',
           incidentDateTime_value = ''2024-05-01T20:00''\<rparr>
          \<lparr>incidentSummary_invalid = False, incidentLocation_invalid = False,
           incidentDateTime_invalid = False, reportContent = None,
           reportSection_hidden = True\<rparr>)"
proof -
  have len: "length (trim ''  He took my bike from my yard.  '') = 29"
    by (simp add: trim_def isWhiteSpace_def)
  then have short: "length (trim (incidentSummary_value
          \<lparr>caseId_value = ''2024-017'', dateReceived_value = ''2024-05-02'',
           complainantName_value = ''Juan Dela Cruz'', complainantPhone_value = [],
           complainantEmail_value = [], complainantAddress_value = [],
           respondentContainer = [],
           incidentSummary_value = ''  He took my bike from my yard.  '',
           incidentLocation_value = ''Purok 3, San Pedro City'',
           incidentDateTime_value = ''2024-05-01T20:00''\<rparr>)) < 30"
    by simp
  note result = short_summary_no_report [OF short, of
          "\<lparr>incidentSummary_invalid = False, incidentLocation_invalid = False,
           incidentDateTime_invalid = False, reportContent = None,
           reportSection_hidden = True\<rparr>" referenceHost referenceNow]
  from result [THEN conjunct2, THEN conjunct2, THEN conjunct1]
       result [THEN conjunct2, THEN conjunct2, THEN conjunct2, THEN conjunct1] len
  show ?thesis by simp
qed

end
